theory Spec2Isabelle
  imports Main
begin

section \<open>Values, rows and the graph store\<close>

text \<open>
  \<^verbatim>\<open>agent.py\<close> talks to a Neo4j graph through \<^verbatim>\<open>Neo4jGraph.query(query, params)\<close>,
  which returns a list of row dictionaries (string key to dynamic value) or raises.
  The dynamic values that occur in rows are modelled by \<open>pyval\<close>: null, strings,
  integers, byte strings (\<^verbatim>\<open>bytes\<close> and the mutable \<^verbatim>\<open>bytearray\<close>, which the
  driver returns for byte-array properties), lists and string-keyed dictionaries (a
  node is returned as the dictionary of its properties). Dictionaries are
  association lists read with \<open>map_of\<close>. A \<^verbatim>\<open>str\<close> is represented by its UTF-8
  encoding, one \<open>char\<close> per byte.
\<close>

datatype pyval =
    PNone
  | PStr string
  | PInt int
  | PBytes string
  | PByteArray string
  | PList "pyval list"
  | PDict "(string \<times> pyval) list"

text \<open>
  Every exception the module can raise is a value: the built-in \<^verbatim>\<open>KeyError\<close>,
  \<^verbatim>\<open>ValueError\<close> and \<^verbatim>\<open>TypeError\<close>, pydantic's \<^verbatim>\<open>ValidationError\<close> (with the names of
  the fields that failed) and whatever the store itself raises (\<open>StoreError\<close>, with an
  opaque payload).
\<close>

datatype error =
    KeyError string
  | ValueError string
  | TypeError string
  | ValidationError "string list"
  | StoreError string

type_synonym row = "(string \<times> pyval) list"
type_synonym params = "(string \<times> pyval) list"

text \<open>
  The store is the response of \<^verbatim>\<open>graph.query\<close> to a query text and its bound
  parameters. The module-level \<^verbatim>\<open>graph\<close> is shared by all tools; the list of the
  queries sent to it so far is threaded through every operation.
\<close>

type_synonym store = "string \<Rightarrow> params \<Rightarrow> error + row list"
type_synonym qlog = "(string \<times> params) list"

definition graph_query :: "store \<Rightarrow> string \<Rightarrow> params \<Rightarrow> qlog \<Rightarrow> (error + row list) \<times> qlog" where
  "graph_query g query ps log = (g query ps, log @ [(query, ps)])"

text \<open>\<^verbatim>\<open>r[k]\<close> raises \<^verbatim>\<open>KeyError\<close> on a missing key; \<^verbatim>\<open>r.get(k)\<close> gives \<^verbatim>\<open>None\<close>.\<close>

definition getitem :: "row \<Rightarrow> string \<Rightarrow> error + pyval" where
  "getitem r k = (case map_of r k of None \<Rightarrow> Inl (KeyError k) | Some v \<Rightarrow> Inr v)"

definition dict_get :: "row \<Rightarrow> string \<Rightarrow> pyval" where
  "dict_get r k = (case map_of r k of None \<Rightarrow> PNone | Some v \<Rightarrow> v)"

section \<open>Pydantic models\<close>

record Action =
  name :: string

record ECode =
  code :: string
  description :: "string option"

record ProblemScenario =
  description :: string

record Symptom =
  name :: string

text \<open>
  Well-formed UTF-8, as the strict decoder accepts it: one byte below \<open>0x80\<close>, or a
  lead byte followed by one to three continuation bytes, without overlong forms,
  surrogates or code points beyond \<open>U+10FFFF\<close>.
\<close>

definition between :: "nat \<Rightarrow> nat \<Rightarrow> nat \<Rightarrow> bool" where
  "between lo hi b = (lo \<le> b \<and> b \<le> hi)"

fun well_formed_utf8 :: "nat list \<Rightarrow> bool" where
  "well_formed_utf8 [] = True"
| "well_formed_utf8 (a # bs) =
     (if a < 0x80 then well_formed_utf8 bs
      else if between 0xC2 0xDF a then
        (case bs of
           b # r \<Rightarrow> between 0x80 0xBF b \<and> well_formed_utf8 r
         | _ \<Rightarrow> False)
      else if between 0xE0 0xEF a then
        (case bs of
           b # c # r \<Rightarrow>
             between (if a = 0xE0 then 0xA0 else 0x80) (if a = 0xED then 0x9F else 0xBF) b
             \<and> between 0x80 0xBF c \<and> well_formed_utf8 r
         | _ \<Rightarrow> False)
      else if between 0xF0 0xF4 a then
        (case bs of
           b # c # d # r \<Rightarrow>
             between (if a = 0xF0 then 0x90 else 0x80) (if a = 0xF4 then 0x8F else 0xBF) b
             \<and> between 0x80 0xBF c \<and> between 0x80 0xBF d \<and> well_formed_utf8 r
         | _ \<Rightarrow> False)
      else False)"

text \<open>
  Decoding a byte string to a \<^verbatim>\<open>str\<close>. Since a \<^verbatim>\<open>str\<close> is represented by its
  encoding, decoding keeps the bytes when they are well-formed and fails otherwise.
\<close>

definition decode_utf8 :: "string \<Rightarrow> string option" where
  "decode_utf8 bs = (if well_formed_utf8 (map of_char bs) then Some bs else None)"

text \<open>
  Constructing a model validates every field and raises one \<^verbatim>\<open>ValidationError\<close>
  listing all fields that failed. The validation is pydantic 2's (the agent framework
  imported by the module requires it) in its default lax mode: a \<^verbatim>\<open>str\<close> field takes
  a \<^verbatim>\<open>str\<close> as it is, decodes \<^verbatim>\<open>bytes\<close> and \<^verbatim>\<open>bytearray\<close> as UTF-8, and rejects
  everything else (integers are not coerced); an \<^verbatim>\<open>Optional[str]\<close> field also takes
  \<^verbatim>\<open>None\<close>. Values of the kinds that \<open>pyval\<close> leaves out (booleans, floats,
  temporal and spatial values) are rejected by both, as integers are.
\<close>

fun str_field :: "string \<Rightarrow> pyval \<Rightarrow> string list + string" where
  "str_field f (PStr s) = Inr s"
| "str_field f (PBytes bs) = (case decode_utf8 bs of None \<Rightarrow> Inl [f] | Some s \<Rightarrow> Inr s)"
| "str_field f (PByteArray bs) = (case decode_utf8 bs of None \<Rightarrow> Inl [f] | Some s \<Rightarrow> Inr s)"
| "str_field f v = Inl [f]"

fun opt_str_field :: "string \<Rightarrow> pyval \<Rightarrow> string list + string option" where
  "opt_str_field f PNone = Inr None"
| "opt_str_field f v = (case str_field f v of Inl fs \<Rightarrow> Inl fs | Inr s \<Rightarrow> Inr (Some s))"

definition field_errors :: "string list + 'a \<Rightarrow> string list" where
  "field_errors r = (case r of Inl fs \<Rightarrow> fs | Inr _ \<Rightarrow> [])"

definition Action_init :: "pyval \<Rightarrow> error + Action" where
  "Action_init v =
     (case str_field ''name'' v of
        Inl fs \<Rightarrow> Inl (ValidationError fs)
      | Inr s \<Rightarrow> Inr \<lparr>Action.name = s\<rparr>)"

definition ECode_init :: "pyval \<Rightarrow> pyval \<Rightarrow> error + ECode" where
  "ECode_init c d =
     (case (str_field ''code'' c, opt_str_field ''description'' d) of
        (Inr c', Inr d') \<Rightarrow> Inr \<lparr>code = c', ECode.description = d'\<rparr>
      | (rc, rd) \<Rightarrow> Inl (ValidationError (field_errors rc @ field_errors rd)))"

definition ProblemScenario_init :: "pyval \<Rightarrow> error + ProblemScenario" where
  "ProblemScenario_init v =
     (case str_field ''description'' v of
        Inl fs \<Rightarrow> Inl (ValidationError fs)
      | Inr s \<Rightarrow> Inr \<lparr>ProblemScenario.description = s\<rparr>)"

definition Symptom_init :: "pyval \<Rightarrow> error + Symptom" where
  "Symptom_init v =
     (case str_field ''name'' v of
        Inl fs \<Rightarrow> Inl (ValidationError fs)
      | Inr s \<Rightarrow> Inr \<lparr>Symptom.name = s\<rparr>)"

section \<open>Neo4jTool: the four enumerations\<close>

text \<open>A list comprehension stops at the first element whose expression raises.\<close>

fun comprehension :: "('a \<Rightarrow> error + 'b) \<Rightarrow> 'a list \<Rightarrow> error + 'b list" where
  "comprehension f [] = Inr []"
| "comprehension f (x # xs) =
     (case f x of
        Inl e \<Rightarrow> Inl e
      | Inr y \<Rightarrow> (case comprehension f xs of Inl e \<Rightarrow> Inl e | Inr ys \<Rightarrow> Inr (y # ys)))"

text \<open>The element expressions of the four comprehensions.\<close>

definition Action_of_row :: "row \<Rightarrow> error + Action" where
  "Action_of_row r = (case getitem r ''name'' of Inl e \<Rightarrow> Inl e | Inr v \<Rightarrow> Action_init v)"

definition ECode_of_row :: "row \<Rightarrow> error + ECode" where
  "ECode_of_row r =
     (case getitem r ''code'' of
        Inl e \<Rightarrow> Inl e
      | Inr v \<Rightarrow> ECode_init v (dict_get r ''description''))"

definition ProblemScenario_of_row :: "row \<Rightarrow> error + ProblemScenario" where
  "ProblemScenario_of_row r =
     (case getitem r ''description'' of Inl e \<Rightarrow> Inl e | Inr v \<Rightarrow> ProblemScenario_init v)"

definition Symptom_of_row :: "row \<Rightarrow> error + Symptom" where
  "Symptom_of_row r = (case getitem r ''name'' of Inl e \<Rightarrow> Inl e | Inr v \<Rightarrow> Symptom_init v)"

definition actions_query :: string where
  "actions_query = ''MATCH (a:Action) RETURN a.name AS name''"

definition error_codes_query :: string where
  "error_codes_query = ''MATCH (e:ECode) RETURN e.code AS code, e.description AS description''"

definition problem_scenarios_query :: string where
  "problem_scenarios_query = ''MATCH (p:ProblemScenario) RETURN p.description AS description''"

definition symptoms_query :: string where
  "symptoms_query = ''MATCH (s:Symptom) RETURN s.name AS name''"

definition get_all_actions :: "store \<Rightarrow> qlog \<Rightarrow> (error + Action list) \<times> qlog" where
  "get_all_actions g log =
     (case graph_query g actions_query [] log of
        (Inl e, log') \<Rightarrow> (Inl e, log')
      | (Inr results, log') \<Rightarrow> (comprehension Action_of_row results, log'))"

definition get_all_error_codes :: "store \<Rightarrow> qlog \<Rightarrow> (error + ECode list) \<times> qlog" where
  "get_all_error_codes g log =
     (case graph_query g error_codes_query [] log of
        (Inl e, log') \<Rightarrow> (Inl e, log')
      | (Inr results, log') \<Rightarrow> (comprehension ECode_of_row results, log'))"

definition get_all_problem_scenarios :: "store \<Rightarrow> qlog \<Rightarrow> (error + ProblemScenario list) \<times> qlog" where
  "get_all_problem_scenarios g log =
     (case graph_query g problem_scenarios_query [] log of
        (Inl e, log') \<Rightarrow> (Inl e, log')
      | (Inr results, log') \<Rightarrow> (comprehension ProblemScenario_of_row results, log'))"

definition get_all_symptoms :: "store \<Rightarrow> qlog \<Rightarrow> (error + Symptom list) \<times> qlog" where
  "get_all_symptoms g log =
     (case graph_query g symptoms_query [] log of
        (Inl e, log') \<Rightarrow> (Inl e, log')
      | (Inr results, log') \<Rightarrow> (comprehension Symptom_of_row results, log'))"

section \<open>Neo4jTool.get\_neighbors\<close>

text \<open>The dictionary literal that resolves a label to its key property.\<close>

definition property_keys :: "(string \<times> string) list" where
  "property_keys =
     [(''Action'', ''name''),
      (''ECode'', ''code''),
      (''ProblemScenario'', ''description''),
      (''Symptom'', ''name'')]"

text \<open>\<^verbatim>\<open>not property_key\<close>: true for \<^verbatim>\<open>None\<close> and for the empty string.\<close>

definition falsy :: "string option \<Rightarrow> bool" where
  "falsy k = (case k of None \<Rightarrow> True | Some s \<Rightarrow> s = [])"

text \<open>
  The f-string of the traversal query. It interpolates the label and the key
  property; \<^verbatim>\<open>$identifier\<close> is the literal name of the bound parameter.
\<close>

definition neighbors_query :: "string \<Rightarrow> string \<Rightarrow> string" where
  "neighbors_query label property_key =
     [CHR 0x0A] @ ''        MATCH (n:'' @ label @ '' {'' @ property_key
       @ '': $identifier})-[r]-(m)''
     @ [CHR 0x0A] @ ''        RETURN type(r) AS rel_type, labels(m) AS node_labels, m AS node''
     @ [CHR 0x0A] @ ''        ''"

text \<open>
  A neighbour descriptor is the dictionary with the two keys \<^verbatim>\<open>labels\<close> and
  \<^verbatim>\<open>properties\<close>. The result dictionary keeps its keys in insertion order; its
  keys are the hashable values found under \<^verbatim>\<open>rel_type\<close>.
\<close>

record neighbor =
  labels :: pyval
  properties :: pyval

type_synonym neighbors = "(pyval \<times> neighbor list) list"

fun hashable :: "pyval \<Rightarrow> bool" where
  "hashable (PByteArray bs) = False"
| "hashable (PList xs) = False"
| "hashable (PDict kvs) = False"
| "hashable v = True"

text \<open>The type name that the \<^verbatim>\<open>TypeError\<close> of an unhashable key quotes.\<close>

fun type_name :: "pyval \<Rightarrow> string" where
  "type_name PNone = ''NoneType''"
| "type_name (PStr s) = ''str''"
| "type_name (PInt i) = ''int''"
| "type_name (PBytes bs) = ''bytes''"
| "type_name (PByteArray bs) = ''bytearray''"
| "type_name (PList xs) = ''list''"
| "type_name (PDict kvs) = ''dict''"

definition unhashable :: "pyval \<Rightarrow> error" where
  "unhashable v = TypeError (''unhashable type: '' @ [CHR 0x27] @ type_name v @ [CHR 0x27])"

text \<open>\<^verbatim>\<open>neighbors.setdefault(rel_type, []).append(d)\<close>\<close>

fun setdefault_append :: "neighbors \<Rightarrow> pyval \<Rightarrow> neighbor \<Rightarrow> neighbors" where
  "setdefault_append [] k d = [(k, [d])]"
| "setdefault_append ((k', ds) # m) k d =
     (if k' = k then (k', ds @ [d]) # m else (k', ds) # setdefault_append m k d)"

text \<open>
  The loop over the records. The receiver \<^verbatim>\<open>neighbors.setdefault(rel_type, [])\<close> is
  evaluated (and hashes the key) before the argument of \<^verbatim>\<open>append\<close> reads
  \<^verbatim>\<open>node_labels\<close> and \<^verbatim>\<open>node\<close>.
\<close>

fun group_records :: "neighbors \<Rightarrow> row list \<Rightarrow> error + neighbors" where
  "group_records nb [] = Inr nb"
| "group_records nb (record # rest) =
     (case getitem record ''rel_type'' of
        Inl e \<Rightarrow> Inl e
      | Inr rel_type \<Rightarrow>
          if \<not> hashable rel_type then Inl (unhashable rel_type)
          else (case getitem record ''node_labels'' of
                  Inl e \<Rightarrow> Inl e
                | Inr ls \<Rightarrow>
                    (case getitem record ''node'' of
                       Inl e \<Rightarrow> Inl e
                     | Inr nd \<Rightarrow>
                         group_records
                           (setdefault_append nb rel_type \<lparr>labels = ls, properties = nd\<rparr>)
                           rest)))"

definition get_neighbors :: "store \<Rightarrow> string \<Rightarrow> string \<Rightarrow> qlog \<Rightarrow> (error + neighbors) \<times> qlog" where
  "get_neighbors g label identifier log =
     (let property_key = map_of property_keys label in
      if falsy property_key then (Inl (ValueError (''Unknown label: '' @ label)), log)
      else
        (case graph_query g (neighbors_query label (the property_key))
                [(''identifier'', PStr identifier)] log of
           (Inl e, log') \<Rightarrow> (Inl e, log')
         | (Inr results, log') \<Rightarrow> (group_records [] results, log')))"

section \<open>The tool functions\<close>

definition possible_actions_list :: "store \<Rightarrow> qlog \<Rightarrow> (error + Action list) \<times> qlog" where
  "possible_actions_list g log = get_all_actions g log"

definition possible_error_codes_list :: "store \<Rightarrow> qlog \<Rightarrow> (error + ECode list) \<times> qlog" where
  "possible_error_codes_list g log = get_all_error_codes g log"

definition possible_scenarios_list :: "store \<Rightarrow> qlog \<Rightarrow> (error + ProblemScenario list) \<times> qlog" where
  "possible_scenarios_list g log = get_all_problem_scenarios g log"

definition possible_symptom_list :: "store \<Rightarrow> qlog \<Rightarrow> (error + Symptom list) \<times> qlog" where
  "possible_symptom_list g log = get_all_symptoms g log"

definition get_entity_neighbors :: "store \<Rightarrow> string \<Rightarrow> string \<Rightarrow> qlog \<Rightarrow> (error + neighbors) \<times> qlog" where
  "get_entity_neighbors g label identifier log = get_neighbors g label identifier log"

text \<open>
  \<^verbatim>\<open>propose_correct_action\<close> builds the model from its argument only; the shared
  graph is in scope but is not used.
\<close>

definition propose_correct_action :: "store \<Rightarrow> string \<Rightarrow> qlog \<Rightarrow> (error + Action) \<times> qlog" where
  "propose_correct_action g correct_action log = (Action_init (PStr correct_action), log)"

section \<open>Concrete stores used in the examples\<close>

definition no_rows :: store where
  "no_rows query ps = Inr []"

definition unreachable :: store where
  "unreachable query ps = Inl (StoreError ''ServiceUnavailable'')"

definition blank_names :: store where
  "blank_names query ps = Inr [[(''name'', PStr '''')]]"

definition bytes_names :: store where
  "bytes_names query ps =
     Inr [[(''name'', PBytes ''replace_motor'')], [(''name'', PByteArray ''drain_pump'')]]"

definition codeless :: store where
  "codeless query ps = Inr [[(''description'', PStr ''no code'')]]"

definition sample_rows :: "row list" where
  "sample_rows =
     [[(''rel_type'', PStr ''INDICATES''),
       (''node_labels'', PList [PStr ''ProblemScenario'']),
       (''node'', PDict [(''description'', PStr ''door seal worn'')])],
      [(''rel_type'', PStr ''REPORTED_WITH''),
       (''node_labels'', PList [PStr ''ECode'']),
       (''node'', PDict [(''code'', PStr ''E24''), (''description'', PNone)])],
      [(''rel_type'', PStr ''INDICATES''),
       (''node_labels'', PList [PStr ''ProblemScenario'']),
       (''node'', PDict [(''description'', PStr ''hose loose'')])]]"

definition sample_neighbors :: neighbors where
  "sample_neighbors =
     [(PStr ''INDICATES'',
       [\<lparr>labels = PList [PStr ''ProblemScenario''],
         properties = PDict [(''description'', PStr ''door seal worn'')]\<rparr>,
        \<lparr>labels = PList [PStr ''ProblemScenario''],
         properties = PDict [(''description'', PStr ''hose loose'')]\<rparr>]),
      (PStr ''REPORTED_WITH'',
       [\<lparr>labels = PList [PStr ''ECode''],
         properties = PDict [(''code'', PStr ''E24''), (''description'', PNone)]\<rparr>])]"

text \<open>
  A store that answers the four enumeration queries with a small catalogue and
  every other query with \<open>sample_rows\<close>.
\<close>

definition catalog :: store where
  "catalog query ps =
     (if query = actions_query then Inr [[(''name'', PStr ''replace_motor'')]]
      else if query = error_codes_query then
        Inr [[(''code'', PStr ''E24''), (''description'', PStr ''water in base'')],
             [(''code'', PStr ''E15'')]]
      else if query = problem_scenarios_query then Inr [[(''description'', PStr ''door seal worn'')]]
      else if query = symptoms_query then Inr [[(''name'', PStr ''leaking water'')]]
      else Inr sample_rows)"

text \<open>An identifier that would change the query if it were spliced into its text.\<close>

definition injection :: string where
  "injection = ''x}) DETACH DELETE n //''"

section \<open>Vocabulary for the grouping properties\<close>

text \<open>
  The descriptor built from a row, the rows of one relationship type in store order,
  and the rows that carry all three columns of the traversal query with a hashable
  relationship type.
\<close>

definition descriptor :: "row \<Rightarrow> neighbor" where
  "descriptor r = \<lparr>labels = dict_get r ''node_labels'', properties = dict_get r ''node''\<rparr>"

definition rows_of_type :: "pyval \<Rightarrow> row list \<Rightarrow> row list" where
  "rows_of_type k rows = filter (\<lambda>r. map_of r ''rel_type'' = Some k) rows"

definition complete_row :: "row \<Rightarrow> bool" where
  "complete_row r =
     ((case map_of r ''rel_type'' of None \<Rightarrow> False | Some k \<Rightarrow> hashable k)
      \<and> map_of r ''node_labels'' \<noteq> None \<and> map_of r ''node'' \<noteq> None)"

section \<open>Vocabulary for the enumeration properties\<close>

text \<open>
  The row holds a value under the key, the value is not null, and validating it as
  a \<^verbatim>\<open>str\<close> field gives the text \<open>s\<close>.
\<close>

definition key_from :: "string \<Rightarrow> row \<Rightarrow> string \<Rightarrow> bool" where
  "key_from k r s =
     (case map_of r k of
        None \<Rightarrow> False
      | Some v \<Rightarrow> v \<noteq> PNone \<and> str_field k v = Inr s)"

section \<open>Label resolution\<close>

lemma property_keys_Some:
  "map_of property_keys label = Some k \<longleftrightarrow>
     (label = ''Action'' \<and> k = ''name'') \<or> (label = ''ECode'' \<and> k = ''code'')
     \<or> (label = ''ProblemScenario'' \<and> k = ''description'') \<or> (label = ''Symptom'' \<and> k = ''name'')"
  by (auto simp: property_keys_def)

lemma falsy_property_key:
  "falsy (map_of property_keys label) \<longleftrightarrow>
     label \<notin> {''Action'', ''ECode'', ''ProblemScenario'', ''Symptom''}"
proof (cases "map_of property_keys label")
  case None
  then show ?thesis by (auto simp: falsy_def property_keys_def split: if_splits)
next
  case (Some k)
  then have "(label = ''Action'' \<and> k = ''name'') \<or> (label = ''ECode'' \<and> k = ''code'')
      \<or> (label = ''ProblemScenario'' \<and> k = ''description'') \<or> (label = ''Symptom'' \<and> k = ''name'')"
    by (simp only: property_keys_Some)
  then show ?thesis by (auto simp: falsy_def Some)
qed

lemma get_neighbors_unknown:
  "label \<notin> {''Action'', ''ECode'', ''ProblemScenario'', ''Symptom''} \<Longrightarrow>
     get_neighbors g label identifier log = (Inl (ValueError (''Unknown label: '' @ label)), log)"
  by (simp add: get_neighbors_def falsy_property_key)

lemma get_neighbors_known:
  "label \<in> {''Action'', ''ECode'', ''ProblemScenario'', ''Symptom''} \<Longrightarrow>
     get_neighbors g label identifier log =
       (case g (neighbors_query label (the (map_of property_keys label)))
               [(''identifier'', PStr identifier)] of
          Inl e \<Rightarrow> Inl e
        | Inr results \<Rightarrow> group_records [] results,
        log @ [(neighbors_query label (the (map_of property_keys label)),
                [(''identifier'', PStr identifier)])])"
  by (simp add: get_neighbors_def falsy_property_key graph_query_def Let_def split: sum.splits)

section \<open>Neighbour traversal: empty results and unknown labels\<close>

text \<open>
  Claim C1, as the code has it. The labels that \<open>get_entity_neighbors\<close> accepts are
  \<^verbatim>\<open>Action\<close>, \<^verbatim>\<open>ECode\<close>, \<^verbatim>\<open>ProblemScenario\<close> and \<^verbatim>\<open>Symptom\<close>. For each of them and every
  identifier, when the traversal query returns no rows the result is the empty
  dictionary and nothing is raised.
\<close>

theorem isolated_node_empty:
  "label \<in> {''Action'', ''ECode'', ''ProblemScenario'', ''Symptom''} \<Longrightarrow>
   g (neighbors_query label (the (map_of property_keys label)))
     [(''identifier'', PStr identifier)] = Inr [] \<Longrightarrow>
     fst (get_entity_neighbors g label identifier log) = Inr []"
  by (simp add: get_entity_neighbors_def get_neighbors_known)

theorem isolated_node_empty_witness:
  "''ECode'' \<in> {''Action'', ''ECode'', ''ProblemScenario'', ''Symptom''}
   \<and> no_rows (neighbors_query ''ECode'' (the (map_of property_keys ''ECode'')))
        [(''identifier'', PStr ''E24'')] = Inr []
   \<and> fst (get_entity_neighbors no_rows ''ECode'' ''E24'' []) = Inr []"
proof -
  have h1: "''ECode'' \<in> {''Action'', ''ECode'', ''ProblemScenario'', ''Symptom''}" by simp
  have h2: "no_rows (neighbors_query ''ECode'' (the (map_of property_keys ''ECode'')))
              [(''identifier'', PStr ''E24'')] = Inr []"
    by (simp add: no_rows_def)
  show ?thesis
    using h1 h2 isolated_node_empty [of "''ECode''" no_rows "''E24''" "[]"] by simp
qed

text \<open>
  Claim C1 as written names the label \<^verbatim>\<open>ErrorCode\<close>. That string is not a key of the
  label table, so the call raises \<^verbatim>\<open>ValueError\<close> even on a store that returns no
  rows.
\<close>

theorem ErrorCode_label_rejected:
  "fst (get_entity_neighbors no_rows ''ErrorCode'' ''E24'' [])
     = Inl (ValueError ''Unknown label: ErrorCode'')"
  by (simp add: get_entity_neighbors_def get_neighbors_unknown)

text \<open>
  Claim C2, as the code has it. For every label other than \<^verbatim>\<open>Action\<close>, \<^verbatim>\<open>ECode\<close>,
  \<^verbatim>\<open>ProblemScenario\<close> and \<^verbatim>\<open>Symptom\<close>, every identifier and every store,
  \<open>get_entity_neighbors\<close> raises \<^verbatim>\<open>ValueError\<close> with the message
  \<^verbatim>\<open>Unknown label: <label>\<close>; it never returns a dictionary.
\<close>

theorem unknown_label_raises:
  "label \<notin> {''Action'', ''ECode'', ''ProblemScenario'', ''Symptom''} \<Longrightarrow>
     fst (get_entity_neighbors g label identifier log)
       = Inl (ValueError (''Unknown label: '' @ label))"
  by (simp add: get_entity_neighbors_def get_neighbors_unknown)

theorem unknown_label_raises_witness:
  "''ErrorCode'' \<notin> {''Action'', ''ECode'', ''ProblemScenario'', ''Symptom''}
   \<and> fst (get_entity_neighbors no_rows ''ErrorCode'' '''' [])
       = Inl (ValueError ''Unknown label: ErrorCode'')"
  using unknown_label_raises [of "''ErrorCode''" no_rows "''''" "[]"] by simp

text \<open>
  Claim C2 as written takes the recognized kinds to be \<^verbatim>\<open>Action\<close>, \<^verbatim>\<open>ErrorCode\<close>,
  \<^verbatim>\<open>ProblemScenario\<close> and \<^verbatim>\<open>Symptom\<close>. The label \<^verbatim>\<open>ECode\<close> is outside that set, yet
  the call does not raise: on a store without rows it returns the empty dictionary.
\<close>

theorem ECode_label_accepted:
  "''ECode'' \<notin> {''Action'', ''ErrorCode'', ''ProblemScenario'', ''Symptom''}
   \<and> fst (get_entity_neighbors no_rows ''ECode'' '''' []) = Inr []"
  by (simp add: get_entity_neighbors_def get_neighbors_known no_rows_def)

text \<open>
  Claim C10. When the label is not a key of the label table, \<^verbatim>\<open>ValueError\<close> is raised
  before any query is sent: the list of queries sent to the store is unchanged.
\<close>

theorem unknown_label_sends_no_query:
  "map_of property_keys label = None \<Longrightarrow>
     snd (get_entity_neighbors g label identifier log) = log
     \<and> fst (get_entity_neighbors g label identifier log)
         = Inl (ValueError (''Unknown label: '' @ label))"
  by (simp add: get_entity_neighbors_def get_neighbors_def falsy_def)

theorem unknown_label_sends_no_query_witness:
  "map_of property_keys ''Dishwasher'' = None
   \<and> snd (get_entity_neighbors unreachable ''Dishwasher'' ''E24'' [(actions_query, [])])
       = [(actions_query, [])]
   \<and> fst (get_entity_neighbors unreachable ''Dishwasher'' ''E24'' [(actions_query, [])])
       = Inl (ValueError ''Unknown label: Dishwasher'')"
proof -
  have h: "map_of property_keys ''Dishwasher'' = None" by (simp add: property_keys_def)
  show ?thesis
    using h unknown_label_sends_no_query
      [OF h, of unreachable "''E24''" "[(actions_query, [])]"] by simp
qed

section \<open>Grouping by relationship type\<close>

lemma map_of_setdefault_append:
  "map_of (setdefault_append m k d) =
     (map_of m)(k \<mapsto> (case map_of m k of None \<Rightarrow> [d] | Some ds \<Rightarrow> ds @ [d]))"
  by (induction m k d rule: setdefault_append.induct) (auto simp: fun_eq_iff)

lemma keys_setdefault_append:
  "map fst (setdefault_append m k d) =
     (if k \<in> set (map fst m) then map fst m else map fst m @ [k])"
  by (induction m k d rule: setdefault_append.induct) auto

lemma nonempty_setdefault_append:
  "\<forall>(k', ds) \<in> set m. ds \<noteq> [] \<Longrightarrow> \<forall>(k', ds) \<in> set (setdefault_append m k d). ds \<noteq> []"
  by (induction m k d rule: setdefault_append.induct) auto

lemma group_records_step:
  "complete_row r \<Longrightarrow>
     group_records nb (r # rest) =
       group_records (setdefault_append nb (the (map_of r ''rel_type'')) (descriptor r)) rest"
  by (auto simp: complete_row_def getitem_def descriptor_def dict_get_def split: option.splits)

lemma group_records_nonempty:
  "group_records nb rows = Inr nb' \<Longrightarrow> \<forall>(k, ds) \<in> set nb. ds \<noteq> [] \<Longrightarrow>
     \<forall>(k, ds) \<in> set nb'. ds \<noteq> []"
proof (induction rows arbitrary: nb)
  case Nil
  then show ?case by simp
next
  case (Cons r rows)
  from Cons.prems(1) obtain k ls nd where
    step: "group_records (setdefault_append nb k \<lparr>labels = ls, properties = nd\<rparr>) rows = Inr nb'"
    by (auto split: sum.splits if_splits)
  show ?case
    by (rule Cons.IH [OF step]) (rule nonempty_setdefault_append [OF Cons.prems(2)])
qed

text \<open>
  On rows that carry all three columns the loop does not raise, and the resulting
  dictionary is described key by key: the descriptors of the rows of that type, in
  store order, after whatever was there before.
\<close>

lemma group_records_complete:
  "\<forall>r \<in> set rows. complete_row r \<Longrightarrow>
     \<exists>nb'. group_records nb rows = Inr nb'
       \<and> (\<forall>k. map_of nb' k =
             (if rows_of_type k rows = [] then map_of nb k
              else Some ((case map_of nb k of None \<Rightarrow> [] | Some ds \<Rightarrow> ds)
                         @ map descriptor (rows_of_type k rows))))
       \<and> set (map fst nb') = set (map fst nb) \<union> {k. rows_of_type k rows \<noteq> []}
       \<and> (distinct (map fst nb) \<longrightarrow> distinct (map fst nb'))"
proof (induction rows arbitrary: nb)
  case Nil
  then show ?case by (simp add: rows_of_type_def)
next
  case (Cons r rows)
  let ?k = "the (map_of r ''rel_type'')"
  let ?nb = "setdefault_append nb ?k (descriptor r)"
  from Cons.prems have cr: "complete_row r" and rest: "\<forall>r \<in> set rows. complete_row r"
    by simp_all
  from cr have rk: "map_of r ''rel_type'' = Some ?k"
    by (auto simp: complete_row_def split: option.splits)
  from Cons.IH [OF rest, of ?nb] obtain nb' where
    run: "group_records ?nb rows = Inr nb'"
    and look: "\<And>k. map_of nb' k =
             (if rows_of_type k rows = [] then map_of ?nb k
              else Some ((case map_of ?nb k of None \<Rightarrow> [] | Some ds \<Rightarrow> ds)
                         @ map descriptor (rows_of_type k rows)))"
    and keys: "set (map fst nb') = set (map fst ?nb) \<union> {k. rows_of_type k rows \<noteq> []}"
    and dist: "distinct (map fst ?nb) \<longrightarrow> distinct (map fst nb')"
    by blast
  have 1: "group_records nb (r # rows) = Inr nb'"
    using run by (simp only: group_records_step [OF cr])
  have 2: "map_of nb' k =
             (if rows_of_type k (r # rows) = [] then map_of nb k
              else Some ((case map_of nb k of None \<Rightarrow> [] | Some ds \<Rightarrow> ds)
                         @ map descriptor (rows_of_type k (r # rows))))" for k
    using rk by (auto simp: look map_of_setdefault_append rows_of_type_def split: option.splits)
  have 3: "set (map fst nb') = set (map fst nb) \<union> {k. rows_of_type k (r # rows) \<noteq> []}"
  proof -
    have ks: "set (map fst ?nb) = insert ?k (set (map fst nb))"
      by (simp only: keys_setdefault_append) auto
    have rs: "{k. rows_of_type k (r # rows) \<noteq> []} = insert ?k {k. rows_of_type k rows \<noteq> []}"
      using rk by (auto simp: rows_of_type_def)
    show ?thesis unfolding keys ks rs by blast
  qed
  have 4: "distinct (map fst nb) \<longrightarrow> distinct (map fst nb')"
    using dist by (auto simp: keys_setdefault_append)
  from 1 2 3 4 show ?case by blast
qed

lemma catalog_neighbors:
  "catalog (neighbors_query label k) ps = Inr sample_rows"
  by (simp add: catalog_def actions_query_def error_codes_query_def
      problem_scenarios_query_def symptoms_query_def neighbors_query_def)

text \<open>
  Claim C3. Let the label be one the code accepts and let the traversal query return
  rows that each carry the three columns, with relationship type \<open>R1\<close> or \<open>R2\<close>
  (different strings), two rows under \<open>R1\<close> and one under \<open>R2\<close>, in any order. Then
  \<open>get_entity_neighbors\<close> returns a dictionary with exactly the two keys \<open>R1\<close> and
  \<open>R2\<close>; under each key stand the descriptors (labels and properties) of the rows of
  that type and of no other, in the order the store returned them; the sequence
  under \<open>R1\<close> has length 2 and the one under \<open>R2\<close> length 1.
\<close>

theorem two_relationship_types:
  assumes "label \<in> {''Action'', ''ECode'', ''ProblemScenario'', ''Symptom''}"
    and "g (neighbors_query label (the (map_of property_keys label)))
           [(''identifier'', PStr identifier)] = Inr rows"
    and "\<forall>r \<in> set rows. complete_row r
           \<and> (map_of r ''rel_type'' = Some (PStr R1) \<or> map_of r ''rel_type'' = Some (PStr R2))"
    and "R1 \<noteq> R2"
    and "length (rows_of_type (PStr R1) rows) = 2"
    and "length (rows_of_type (PStr R2) rows) = 1"
  shows "\<exists>nb. fst (get_entity_neighbors g label identifier log) = Inr nb
           \<and> distinct (map fst nb) \<and> set (map fst nb) = {PStr R1, PStr R2}
           \<and> map_of nb (PStr R1) = Some (map descriptor (rows_of_type (PStr R1) rows))
           \<and> map_of nb (PStr R2) = Some (map descriptor (rows_of_type (PStr R2) rows))
           \<and> length (the (map_of nb (PStr R1))) = 2
           \<and> length (the (map_of nb (PStr R2))) = 1"
proof -
  from assms(3) have "\<forall>r \<in> set rows. complete_row r" by blast
  from group_records_complete [OF this, of "[]"] obtain nb where
    run: "group_records [] rows = Inr nb"
    and look: "\<And>k. map_of nb k =
             (if rows_of_type k rows = [] then None
              else Some (map descriptor (rows_of_type k rows)))"
    and keys: "set (map fst nb) = {k. rows_of_type k rows \<noteq> []}"
    and dist: "distinct (map fst nb)"
    by auto
  have ne1: "rows_of_type (PStr R1) rows \<noteq> []" and ne2: "rows_of_type (PStr R2) rows \<noteq> []"
    using assms(5,6) by auto
  have other: "rows_of_type k rows = []" if "k \<noteq> PStr R1" "k \<noteq> PStr R2" for k
    using assms(3) that by (auto simp: rows_of_type_def filter_empty_conv)
  have ks: "{k. rows_of_type k rows \<noteq> []} = {PStr R1, PStr R2}"
    using ne1 ne2 other by blast
  have res: "fst (get_entity_neighbors g label identifier log) = Inr nb"
    using assms(1,2) run by (simp add: get_entity_neighbors_def get_neighbors_known)
  have l1: "map_of nb (PStr R1) = Some (map descriptor (rows_of_type (PStr R1) rows))"
    using ne1 by (simp add: look)
  have l2: "map_of nb (PStr R2) = Some (map descriptor (rows_of_type (PStr R2) rows))"
    using ne2 by (simp add: look)
  show ?thesis
    using res dist keys ks l1 l2 assms(5,6) by simp
qed

theorem two_relationship_types_witness:
  "''Symptom'' \<in> {''Action'', ''ECode'', ''ProblemScenario'', ''Symptom''}
   \<and> catalog (neighbors_query ''Symptom'' (the (map_of property_keys ''Symptom'')))
        [(''identifier'', PStr ''leaking water'')] = Inr sample_rows
   \<and> list_all (\<lambda>r. complete_row r
         \<and> (map_of r ''rel_type'' = Some (PStr ''INDICATES'')
            \<or> map_of r ''rel_type'' = Some (PStr ''REPORTED_WITH''))) sample_rows
   \<and> ''INDICATES'' \<noteq> ''REPORTED_WITH''
   \<and> length (rows_of_type (PStr ''INDICATES'') sample_rows) = 2
   \<and> length (rows_of_type (PStr ''REPORTED_WITH'') sample_rows) = 1
   \<and> (\<exists>nb. fst (get_entity_neighbors catalog ''Symptom'' ''leaking water'' []) = Inr nb
           \<and> distinct (map fst nb)
           \<and> set (map fst nb) = {PStr ''INDICATES'', PStr ''REPORTED_WITH''}
           \<and> map_of nb (PStr ''INDICATES'')
               = Some (map descriptor (rows_of_type (PStr ''INDICATES'') sample_rows))
           \<and> map_of nb (PStr ''REPORTED_WITH'')
               = Some (map descriptor (rows_of_type (PStr ''REPORTED_WITH'') sample_rows))
           \<and> length (the (map_of nb (PStr ''INDICATES''))) = 2
           \<and> length (the (map_of nb (PStr ''REPORTED_WITH''))) = 1)"
proof -
  have h1: "''Symptom'' \<in> {''Action'', ''ECode'', ''ProblemScenario'', ''Symptom''}" by simp
  have h2: "catalog (neighbors_query ''Symptom'' (the (map_of property_keys ''Symptom'')))
        [(''identifier'', PStr ''leaking water'')] = Inr sample_rows"
    by (rule catalog_neighbors)
  have h3: "\<forall>r \<in> set sample_rows. complete_row r
         \<and> (map_of r ''rel_type'' = Some (PStr ''INDICATES'')
            \<or> map_of r ''rel_type'' = Some (PStr ''REPORTED_WITH''))"
    by (simp add: sample_rows_def complete_row_def)
  have h4: "''INDICATES'' \<noteq> ''REPORTED_WITH''" by simp
  have h5: "length (rows_of_type (PStr ''INDICATES'') sample_rows) = 2"
    by (simp add: sample_rows_def rows_of_type_def)
  have h6: "length (rows_of_type (PStr ''REPORTED_WITH'') sample_rows) = 1"
    by (simp add: sample_rows_def rows_of_type_def)
  note concl = two_relationship_types
    [of "''Symptom''" catalog "''leaking water''" sample_rows "''INDICATES''"
       "''REPORTED_WITH''" "[]", OF h1 h2 h3 h4 h5 h6]
  from h3 have h3': "list_all (\<lambda>r. complete_row r
         \<and> (map_of r ''rel_type'' = Some (PStr ''INDICATES'')
            \<or> map_of r ''rel_type'' = Some (PStr ''REPORTED_WITH''))) sample_rows"
    by (simp only: list_all_iff)
  from h1 h2 h3' h4 h5 h6 concl show ?thesis by blast
qed

text \<open>
  Claim C4. Whatever rows the store returns, when \<open>get_entity_neighbors\<close> returns a
  dictionary every key in it maps to a non-empty sequence, and when the store
  returned no rows the dictionary is empty.
\<close>

theorem groups_nonempty:
  "(fst (get_entity_neighbors g label identifier log) = Inr nb \<longrightarrow>
      (\<forall>(k, ds) \<in> set nb. ds \<noteq> []) \<and> (\<forall>k ds. map_of nb k = Some ds \<longrightarrow> ds \<noteq> []))
   \<and> (label \<in> {''Action'', ''ECode'', ''ProblemScenario'', ''Symptom''}
        \<and> g (neighbors_query label (the (map_of property_keys label)))
             [(''identifier'', PStr identifier)] = Inr [] \<longrightarrow>
        fst (get_entity_neighbors g label identifier log) = Inr [])"
proof (intro conjI impI)
  assume ret: "fst (get_entity_neighbors g label identifier log) = Inr nb"
  have known: "label \<in> {''Action'', ''ECode'', ''ProblemScenario'', ''Symptom''}"
  proof (rule ccontr)
    assume "label \<notin> {''Action'', ''ECode'', ''ProblemScenario'', ''Symptom''}"
    then have "fst (get_entity_neighbors g label identifier log)
                 = Inl (ValueError (''Unknown label: '' @ label))"
      by (simp add: get_entity_neighbors_def get_neighbors_unknown)
    with ret show False by simp
  qed
  from ret obtain rows where run: "group_records [] rows = Inr nb"
    by (auto simp: get_entity_neighbors_def get_neighbors_known [OF known] split: sum.splits)
  show 1: "\<forall>(k, ds) \<in> set nb. ds \<noteq> []"
    by (rule group_records_nonempty [OF run]) simp
  then show "\<forall>k ds. map_of nb k = Some ds \<longrightarrow> ds \<noteq> []"
    by (auto dest: map_of_SomeD)
next
  assume "label \<in> {''Action'', ''ECode'', ''ProblemScenario'', ''Symptom''}
        \<and> g (neighbors_query label (the (map_of property_keys label)))
             [(''identifier'', PStr identifier)] = Inr []"
  then show "fst (get_entity_neighbors g label identifier log) = Inr []"
    by (simp add: get_entity_neighbors_def get_neighbors_known)
qed

theorem groups_nonempty_witness:
  "fst (get_entity_neighbors catalog ''Symptom'' ''leaking water'' []) = Inr sample_neighbors
   \<and> list_all (\<lambda>(k, ds). ds \<noteq> []) sample_neighbors
   \<and> map_of sample_neighbors (PStr ''INDICATES'') \<noteq> Some []
   \<and> ''Symptom'' \<in> {''Action'', ''ECode'', ''ProblemScenario'', ''Symptom''}
   \<and> no_rows (neighbors_query ''Symptom'' (the (map_of property_keys ''Symptom'')))
        [(''identifier'', PStr ''leaking water'')] = Inr []
   \<and> fst (get_entity_neighbors no_rows ''Symptom'' ''leaking water'' []) = Inr []"
proof -
  have h: "fst (get_entity_neighbors catalog ''Symptom'' ''leaking water'' []) = Inr sample_neighbors"
    by (simp add: get_entity_neighbors_def get_neighbors_known catalog_neighbors sample_rows_def
      getitem_def sample_neighbors_def)
  have e: "no_rows (neighbors_query ''Symptom'' (the (map_of property_keys ''Symptom'')))
        [(''identifier'', PStr ''leaking water'')] = Inr []"
    by (simp add: no_rows_def)
  from h e
    groups_nonempty [of catalog "''Symptom''" "''leaking water''" "[]" sample_neighbors]
    groups_nonempty [of no_rows "''Symptom''" "''leaking water''" "[]" "[]"]
  show ?thesis by (auto simp: list_all_iff)
qed

section \<open>The enumerations and their records\<close>

lemma comprehension_Inr:
  "comprehension f xs = Inr ys \<Longrightarrow> list_all2 (\<lambda>x y. f x = Inr y) xs ys"
  by (induction xs arbitrary: ys) (auto split: sum.splits)

lemma comprehension_Inl:
  "x \<in> set xs \<Longrightarrow> f x = Inl e \<Longrightarrow> \<exists>e'. comprehension f xs = Inl e'"
  by (induction xs) (auto split: sum.splits)

lemma Action_of_row_Inr:
  "Action_of_row r = Inr a \<Longrightarrow> key_from ''name'' r (Action.name a)"
  by (cases "map_of r ''name''"; cases "the (map_of r ''name'')")
     (auto simp: Action_of_row_def getitem_def Action_init_def key_from_def
        split: sum.splits option.splits)

lemma ECode_of_row_Inr:
  "ECode_of_row r = Inr a \<Longrightarrow> key_from ''code'' r (code a)"
  by (cases "map_of r ''code''"; cases "the (map_of r ''code'')")
     (auto simp: ECode_of_row_def getitem_def ECode_init_def key_from_def
        split: sum.splits option.splits)

lemma ProblemScenario_of_row_Inr:
  "ProblemScenario_of_row r = Inr a \<Longrightarrow>
     key_from ''description'' r (ProblemScenario.description a)"
  by (cases "map_of r ''description''"; cases "the (map_of r ''description'')")
     (auto simp: ProblemScenario_of_row_def getitem_def ProblemScenario_init_def key_from_def
        split: sum.splits option.splits)

lemma Symptom_of_row_Inr:
  "Symptom_of_row r = Inr a \<Longrightarrow> key_from ''name'' r (Symptom.name a)"
  by (cases "map_of r ''name''"; cases "the (map_of r ''name'')")
     (auto simp: Symptom_of_row_def getitem_def Symptom_init_def key_from_def
        split: sum.splits option.splits)

lemma get_all_actions_Inr:
  "fst (get_all_actions g log) = Inr recs \<Longrightarrow>
     \<exists>rows. g actions_query [] = Inr rows \<and> comprehension Action_of_row rows = Inr recs"
  by (auto simp: get_all_actions_def graph_query_def split: sum.splits)

lemma get_all_error_codes_Inr:
  "fst (get_all_error_codes g log) = Inr recs \<Longrightarrow>
     \<exists>rows. g error_codes_query [] = Inr rows \<and> comprehension ECode_of_row rows = Inr recs"
  by (auto simp: get_all_error_codes_def graph_query_def split: sum.splits)

lemma get_all_problem_scenarios_Inr:
  "fst (get_all_problem_scenarios g log) = Inr recs \<Longrightarrow>
     \<exists>rows. g problem_scenarios_query [] = Inr rows
       \<and> comprehension ProblemScenario_of_row rows = Inr recs"
  by (auto simp: get_all_problem_scenarios_def graph_query_def split: sum.splits)

lemma get_all_symptoms_Inr:
  "fst (get_all_symptoms g log) = Inr recs \<Longrightarrow>
     \<exists>rows. g symptoms_query [] = Inr rows \<and> comprehension Symptom_of_row rows = Inr recs"
  by (auto simp: get_all_symptoms_def graph_query_def split: sum.splits)

lemma catalog_simps:
  "catalog actions_query [] = Inr [[(''name'', PStr ''replace_motor'')]]"
  "catalog error_codes_query [] =
     Inr [[(''code'', PStr ''E24''), (''description'', PStr ''water in base'')],
          [(''code'', PStr ''E15'')]]"
  "catalog problem_scenarios_query [] = Inr [[(''description'', PStr ''door seal worn'')]]"
  "catalog symptoms_query [] = Inr [[(''name'', PStr ''leaking water'')]]"
  by (simp_all add: catalog_def actions_query_def error_codes_query_def
      problem_scenarios_query_def symptoms_query_def)

lemma enumerations_catalog:
  "fst (possible_actions_list catalog []) = Inr [\<lparr>Action.name = ''replace_motor''\<rparr>]"
  "fst (possible_error_codes_list catalog [])
     = Inr [\<lparr>code = ''E24'', ECode.description = Some ''water in base''\<rparr>,
            \<lparr>code = ''E15'', ECode.description = None\<rparr>]"
  "fst (possible_scenarios_list catalog [])
     = Inr [\<lparr>ProblemScenario.description = ''door seal worn''\<rparr>]"
  "fst (possible_symptom_list catalog []) = Inr [\<lparr>Symptom.name = ''leaking water''\<rparr>]"
  by (simp_all add: possible_actions_list_def get_all_actions_def
      possible_error_codes_list_def get_all_error_codes_def
      possible_scenarios_list_def get_all_problem_scenarios_def
      possible_symptom_list_def get_all_symptoms_def graph_query_def catalog_simps
      Action_of_row_def ECode_of_row_def ProblemScenario_of_row_def Symptom_of_row_def
      getitem_def dict_get_def Action_init_def ECode_init_def ProblemScenario_init_def
      Symptom_init_def)

lemma enumeration_bytes_names:
  "fst (possible_actions_list bytes_names [])
     = Inr [\<lparr>Action.name = ''replace_motor''\<rparr>, \<lparr>Action.name = ''drain_pump''\<rparr>]"
  by (simp add: possible_actions_list_def get_all_actions_def graph_query_def bytes_names_def
      Action_of_row_def getitem_def Action_init_def decode_utf8_def)

text \<open>
  Claim C5, as the code has it. For every row sequence returned by the store, each of
  the four enumerations returns records whose natural key (name, code, description,
  name) is non-null in every returned record: the key of a returned record is the
  text that validation produced from a value that is present in the row and is not
  null. The text may be empty.
\<close>

theorem natural_keys_non_null:
  "(fst (possible_actions_list g log) = Inr actions \<longrightarrow>
      (\<exists>rows. g actions_query [] = Inr rows
         \<and> list_all2 (\<lambda>r a. key_from ''name'' r (Action.name a)) rows actions))
   \<and> (fst (possible_error_codes_list g log) = Inr ecodes \<longrightarrow>
      (\<exists>rows. g error_codes_query [] = Inr rows
         \<and> list_all2 (\<lambda>r a. key_from ''code'' r (code a)) rows ecodes))
   \<and> (fst (possible_scenarios_list g log) = Inr scenarios \<longrightarrow>
      (\<exists>rows. g problem_scenarios_query [] = Inr rows
         \<and> list_all2 (\<lambda>r a. key_from ''description'' r (ProblemScenario.description a))
              rows scenarios))
   \<and> (fst (possible_symptom_list g log) = Inr symptoms \<longrightarrow>
      (\<exists>rows. g symptoms_query [] = Inr rows
         \<and> list_all2 (\<lambda>r a. key_from ''name'' r (Symptom.name a)) rows symptoms))"
proof (intro conjI impI)
  assume "fst (possible_actions_list g log) = Inr actions"
  then obtain rows where "g actions_query [] = Inr rows"
      and "comprehension Action_of_row rows = Inr actions"
    unfolding possible_actions_list_def by (blast dest: get_all_actions_Inr)
  then show "\<exists>rows. g actions_query [] = Inr rows
         \<and> list_all2 (\<lambda>r a. key_from ''name'' r (Action.name a)) rows actions"
    by (blast intro: list_all2_mono dest: comprehension_Inr Action_of_row_Inr)
next
  assume "fst (possible_error_codes_list g log) = Inr ecodes"
  then obtain rows where "g error_codes_query [] = Inr rows"
      and "comprehension ECode_of_row rows = Inr ecodes"
    unfolding possible_error_codes_list_def by (blast dest: get_all_error_codes_Inr)
  then show "\<exists>rows. g error_codes_query [] = Inr rows
         \<and> list_all2 (\<lambda>r a. key_from ''code'' r (code a)) rows ecodes"
    by (blast intro: list_all2_mono dest: comprehension_Inr ECode_of_row_Inr)
next
  assume "fst (possible_scenarios_list g log) = Inr scenarios"
  then obtain rows where "g problem_scenarios_query [] = Inr rows"
      and "comprehension ProblemScenario_of_row rows = Inr scenarios"
    unfolding possible_scenarios_list_def by (blast dest: get_all_problem_scenarios_Inr)
  then show "\<exists>rows. g problem_scenarios_query [] = Inr rows
         \<and> list_all2 (\<lambda>r a. key_from ''description'' r (ProblemScenario.description a))
              rows scenarios"
    by (blast intro: list_all2_mono dest: comprehension_Inr ProblemScenario_of_row_Inr)
next
  assume "fst (possible_symptom_list g log) = Inr symptoms"
  then obtain rows where "g symptoms_query [] = Inr rows"
      and "comprehension Symptom_of_row rows = Inr symptoms"
    unfolding possible_symptom_list_def by (blast dest: get_all_symptoms_Inr)
  then show "\<exists>rows. g symptoms_query [] = Inr rows
         \<and> list_all2 (\<lambda>r a. key_from ''name'' r (Symptom.name a)) rows symptoms"
    by (blast intro: list_all2_mono dest: comprehension_Inr Symptom_of_row_Inr)
qed

theorem natural_keys_non_null_witness:
  "fst (possible_actions_list bytes_names [])
     = Inr [\<lparr>Action.name = ''replace_motor''\<rparr>, \<lparr>Action.name = ''drain_pump''\<rparr>]
   \<and> (\<exists>rows. bytes_names actions_query [] = Inr rows
         \<and> list_all2 (\<lambda>r a. key_from ''name'' r (Action.name a)) rows
              [\<lparr>Action.name = ''replace_motor''\<rparr>, \<lparr>Action.name = ''drain_pump''\<rparr>])
   \<and> fst (possible_actions_list catalog []) = Inr [\<lparr>Action.name = ''replace_motor''\<rparr>]
   \<and> (\<exists>rows. catalog actions_query [] = Inr rows
         \<and> list_all2 (\<lambda>r a. key_from ''name'' r (Action.name a)) rows
              [\<lparr>Action.name = ''replace_motor''\<rparr>])
   \<and> fst (possible_error_codes_list catalog [])
       = Inr [\<lparr>code = ''E24'', ECode.description = Some ''water in base''\<rparr>,
              \<lparr>code = ''E15'', ECode.description = None\<rparr>]
   \<and> (\<exists>rows. catalog error_codes_query [] = Inr rows
         \<and> list_all2 (\<lambda>r a. key_from ''code'' r (code a)) rows
              [\<lparr>code = ''E24'', ECode.description = Some ''water in base''\<rparr>,
               \<lparr>code = ''E15'', ECode.description = None\<rparr>])
   \<and> fst (possible_scenarios_list catalog [])
       = Inr [\<lparr>ProblemScenario.description = ''door seal worn''\<rparr>]
   \<and> (\<exists>rows. catalog problem_scenarios_query [] = Inr rows
         \<and> list_all2 (\<lambda>r a. key_from ''description'' r (ProblemScenario.description a))
              rows [\<lparr>ProblemScenario.description = ''door seal worn''\<rparr>])
   \<and> fst (possible_symptom_list catalog []) = Inr [\<lparr>Symptom.name = ''leaking water''\<rparr>]
   \<and> (\<exists>rows. catalog symptoms_query [] = Inr rows
         \<and> list_all2 (\<lambda>r a. key_from ''name'' r (Symptom.name a)) rows
              [\<lparr>Symptom.name = ''leaking water''\<rparr>])"
  using natural_keys_non_null
    [of catalog "[]" "[\<lparr>Action.name = ''replace_motor''\<rparr>]"
       "[\<lparr>code = ''E24'', ECode.description = Some ''water in base''\<rparr>,
         \<lparr>code = ''E15'', ECode.description = None\<rparr>]"
       "[\<lparr>ProblemScenario.description = ''door seal worn''\<rparr>]"
       "[\<lparr>Symptom.name = ''leaking water''\<rparr>]"]
    natural_keys_non_null
    [of bytes_names "[]"
       "[\<lparr>Action.name = ''replace_motor''\<rparr>, \<lparr>Action.name = ''drain_pump''\<rparr>]"
       "[]" "[]" "[]"]
    enumerations_catalog enumeration_bytes_names
  by blast

text \<open>
  Claim C5 as written also promises a non-empty key. A node whose name is the empty
  string is returned as a record with the empty name.
\<close>

theorem empty_natural_key_returned:
  "fst (possible_actions_list blank_names []) = Inr [\<lparr>Action.name = ''''\<rparr>]"
  by (simp add: possible_actions_list_def get_all_actions_def graph_query_def blank_names_def
      Action_of_row_def getitem_def Action_init_def)

text \<open>
  Claim C6. Converting a row that lacks the natural key of its kind raises
  (\<^verbatim>\<open>KeyError\<close> on the key), so an enumeration whose answer contains such a row
  raises instead of returning records; a row that has a string \<^verbatim>\<open>code\<close> and no
  \<^verbatim>\<open>description\<close> becomes an \<open>ECode\<close> whose description is null.
\<close>

theorem row_conversion:
  "(map_of r ''name'' = None \<longrightarrow>
      Action_of_row r = Inl (KeyError ''name'') \<and> Symptom_of_row r = Inl (KeyError ''name''))
   \<and> (map_of r ''code'' = None \<longrightarrow> ECode_of_row r = Inl (KeyError ''code''))
   \<and> (map_of r ''description'' = None \<longrightarrow>
        ProblemScenario_of_row r = Inl (KeyError ''description''))
   \<and> (map_of r ''code'' = None \<and> g error_codes_query [] = Inr rows \<and> r \<in> set rows \<longrightarrow>
        (\<exists>e. fst (possible_error_codes_list g log) = Inl e))
   \<and> (map_of r' ''code'' = Some (PStr c) \<and> map_of r' ''description'' = None \<longrightarrow>
        ECode_of_row r' = Inr \<lparr>code = c, ECode.description = None\<rparr>)"
proof (intro conjI impI)
  assume "map_of r ''code'' = None \<and> g error_codes_query [] = Inr rows \<and> r \<in> set rows"
  then have "ECode_of_row r = Inl (KeyError ''code'')" and "r \<in> set rows"
      and "g error_codes_query [] = Inr rows"
    by (simp_all add: ECode_of_row_def getitem_def)
  then show "\<exists>e. fst (possible_error_codes_list g log) = Inl e"
    using comprehension_Inl [of r rows ECode_of_row "KeyError ''code''"]
    by (auto simp: possible_error_codes_list_def get_all_error_codes_def graph_query_def)
qed (simp_all add: Action_of_row_def Symptom_of_row_def ECode_of_row_def
      ProblemScenario_of_row_def getitem_def dict_get_def ECode_init_def)

theorem row_conversion_witness:
  "map_of [(''description'', PStr ''no code'')] ''code'' = None
   \<and> map_of [(''description'', PStr ''no code'')] ''name'' = None
   \<and> codeless error_codes_query [] = Inr [[(''description'', PStr ''no code'')]]
   \<and> [(''description'', PStr ''no code'')] \<in> set [[(''description'', PStr ''no code'')]]
   \<and> ECode_of_row [(''description'', PStr ''no code'')] = Inl (KeyError ''code'')
   \<and> Action_of_row [(''description'', PStr ''no code'')] = Inl (KeyError ''name'')
   \<and> Symptom_of_row [(''description'', PStr ''no code'')] = Inl (KeyError ''name'')
   \<and> (\<exists>e. fst (possible_error_codes_list codeless []) = Inl e)
   \<and> map_of [(''code'', PStr ''E24'')] ''code'' = Some (PStr ''E24'')
   \<and> map_of [(''code'', PStr ''E24'')] ''description'' = None
   \<and> ECode_of_row [(''code'', PStr ''E24'')] = Inr \<lparr>code = ''E24'', ECode.description = None\<rparr>
   \<and> ProblemScenario_of_row [(''code'', PStr ''E24'')] = Inl (KeyError ''description'')"
  using row_conversion [of "[(''description'', PStr ''no code'')]" codeless
                           "[[(''description'', PStr ''no code'')]]" "[]"
                           "[(''code'', PStr ''E24'')]" "''E24''"]
    row_conversion [of "[(''code'', PStr ''E24'')]" codeless "[]" "[]"
                       "[(''code'', PStr ''E24'')]" "''E24''"]
  by (simp add: codeless_def)

section \<open>The action proposal\<close>

text \<open>
  Claim C7. For every string, \<open>propose_correct_action\<close> returns the \<open>Action\<close> whose
  name is that string, unchanged; it never raises, sends no query (the list of
  queries sent is returned as it was) and its result does not depend on the store,
  so the name is not checked against the actions in the graph.
\<close>

theorem proposal_packages_name:
  "propose_correct_action g correct_action log = (Inr \<lparr>Action.name = correct_action\<rparr>, log)"
  by (simp add: propose_correct_action_def Action_init_def)

theorem proposal_packages_name_witness:
  "propose_correct_action unreachable ''replace_motor'' []
     = (Inr \<lparr>Action.name = ''replace_motor''\<rparr>, [])"
  using proposal_packages_name [of unreachable "''replace_motor''" "[]"] by simp

section \<open>Queries sent to the store\<close>

text \<open>
  Claim C9. Each enumeration sends exactly one query, and so does
  \<open>get_entity_neighbors\<close> with a label it accepts; when the store raises on that query
  the same exception value reaches the caller, with no second query and no default
  result in its place.
\<close>

theorem one_query_failures_propagate:
  "snd (possible_actions_list g log) = log @ [(actions_query, [])]
   \<and> (g actions_query [] = Inl e \<longrightarrow> fst (possible_actions_list g log) = Inl e)
   \<and> snd (possible_error_codes_list g log) = log @ [(error_codes_query, [])]
   \<and> (g error_codes_query [] = Inl e \<longrightarrow> fst (possible_error_codes_list g log) = Inl e)
   \<and> snd (possible_scenarios_list g log) = log @ [(problem_scenarios_query, [])]
   \<and> (g problem_scenarios_query [] = Inl e \<longrightarrow> fst (possible_scenarios_list g log) = Inl e)
   \<and> snd (possible_symptom_list g log) = log @ [(symptoms_query, [])]
   \<and> (g symptoms_query [] = Inl e \<longrightarrow> fst (possible_symptom_list g log) = Inl e)
   \<and> (label \<in> {''Action'', ''ECode'', ''ProblemScenario'', ''Symptom''} \<longrightarrow>
        snd (get_entity_neighbors g label identifier log)
          = log @ [(neighbors_query label (the (map_of property_keys label)),
                    [(''identifier'', PStr identifier)])]
        \<and> (g (neighbors_query label (the (map_of property_keys label)))
              [(''identifier'', PStr identifier)] = Inl e \<longrightarrow>
             fst (get_entity_neighbors g label identifier log) = Inl e))"
  by (auto simp: possible_actions_list_def get_all_actions_def
      possible_error_codes_list_def get_all_error_codes_def
      possible_scenarios_list_def get_all_problem_scenarios_def
      possible_symptom_list_def get_all_symptoms_def graph_query_def
      get_entity_neighbors_def get_neighbors_known split: sum.splits)

theorem one_query_failures_propagate_witness:
  "snd (possible_actions_list unreachable []) = [(actions_query, [])]
   \<and> unreachable actions_query [] = Inl (StoreError ''ServiceUnavailable'')
   \<and> fst (possible_actions_list unreachable []) = Inl (StoreError ''ServiceUnavailable'')
   \<and> snd (possible_error_codes_list unreachable []) = [(error_codes_query, [])]
   \<and> fst (possible_error_codes_list unreachable []) = Inl (StoreError ''ServiceUnavailable'')
   \<and> snd (possible_scenarios_list unreachable []) = [(problem_scenarios_query, [])]
   \<and> fst (possible_scenarios_list unreachable []) = Inl (StoreError ''ServiceUnavailable'')
   \<and> snd (possible_symptom_list unreachable []) = [(symptoms_query, [])]
   \<and> fst (possible_symptom_list unreachable []) = Inl (StoreError ''ServiceUnavailable'')
   \<and> ''Action'' \<in> {''Action'', ''ECode'', ''ProblemScenario'', ''Symptom''}
   \<and> snd (get_entity_neighbors unreachable ''Action'' ''replace_motor'' [])
       = [(neighbors_query ''Action'' (the (map_of property_keys ''Action'')),
           [(''identifier'', PStr ''replace_motor'')])]
   \<and> fst (get_entity_neighbors unreachable ''Action'' ''replace_motor'' [])
       = Inl (StoreError ''ServiceUnavailable'')"
  using one_query_failures_propagate
    [of unreachable "[]" "StoreError ''ServiceUnavailable''" "''Action''" "''replace_motor''"]
  by (simp add: unreachable_def)

text \<open>
  Claim C8. The text of the query that \<open>get_entity_neighbors\<close> sends is the same for
  any two identifiers (and any two stores) under the same label. A query is sent
  only for a label of the closed table, its text is built from that label and its
  key property alone, and the identifier travels as the bound parameter
  \<^verbatim>\<open>identifier\<close>.
\<close>

theorem query_text_ignores_identifier:
  "map fst (snd (get_entity_neighbors g label identifier log))
     = map fst (snd (get_entity_neighbors g' label identifier' log))
   \<and> snd (get_entity_neighbors g label identifier log)
       = (if label \<in> {''Action'', ''ECode'', ''ProblemScenario'', ''Symptom''}
          then log @ [(neighbors_query label (the (map_of property_keys label)),
                       [(''identifier'', PStr identifier)])]
          else log)"
proof (cases "label \<in> {''Action'', ''ECode'', ''ProblemScenario'', ''Symptom''}")
  case True
  then show ?thesis by (simp add: get_entity_neighbors_def get_neighbors_known)
next
  case False
  then show ?thesis by (simp add: get_entity_neighbors_def get_neighbors_unknown)
qed

theorem query_text_ignores_identifier_witness:
  "map fst (snd (get_entity_neighbors catalog ''Symptom'' ''leaking water'' []))
     = map fst (snd (get_entity_neighbors no_rows ''Symptom'' injection []))
   \<and> snd (get_entity_neighbors catalog ''Symptom'' injection [])
       = [([CHR 0x0A] @ ''        MATCH (n:Symptom {name: $identifier})-[r]-(m)''
           @ [CHR 0x0A] @ ''        RETURN type(r) AS rel_type, labels(m) AS node_labels, m AS node''
           @ [CHR 0x0A] @ ''        '',
           [(''identifier'', PStr injection)])]"
  using query_text_ignores_identifier
    [of catalog "''Symptom''" "''leaking water''" "[]" no_rows injection]
    query_text_ignores_identifier
    [of catalog "''Symptom''" injection "[]" no_rows injection]
    query_text_ignores_identifier
    [of no_rows "''Symptom''" injection "[]" no_rows injection]
  by (simp add: neighbors_query_def property_keys_def)

end
